theory Spec2Isabelle
  imports Main "HOL-Library.Sublist"
begin

section \<open>Strings\<close>

text \<open>
  Python strings are modelled as \<^typ>\<open>string\<close>, lists of 8-bit characters. The
  string methods the program calls are written out below, each following the semantics
  of the Python method it is named after.
\<close>

text \<open>\<^verbatim>\<open>s.startswith(p)\<close>\<close>

fun startswith :: "string \<Rightarrow> string \<Rightarrow> bool" where
  "startswith s [] = True"
| "startswith [] (p # ps) = False"
| "startswith (c # s) (p # ps) = (c = p \<and> startswith s ps)"

text \<open>\<^verbatim>\<open>sub in s\<close>\<close>

fun contains :: "string \<Rightarrow> string \<Rightarrow> bool" where
  "contains [] sub = (sub = [])"
| "contains (c # s) sub = (startswith (c # s) sub \<or> contains s sub)"

text \<open>
  \<^verbatim>\<open>s.split(sep)\<close> for a non-empty separator: the string is scanned from the left,
  and each occurrence of the separator found closes the current segment; the scan goes on
  behind the occurrence. \<open>cur\<close> is the segment being read. (Python raises on an
  empty separator; the program only splits on the constants \<open>/\<close>, \<open>?\<close> and
  \<open>space dash space\<close>.)
\<close>

fun split_from :: "string \<Rightarrow> string \<Rightarrow> string \<Rightarrow> string list" where
  "split_from sep cur [] = [cur]"
| "split_from sep cur (c # s) =
     (if sep \<noteq> [] \<and> startswith (c # s) sep
      then cur # split_from sep [] (drop (length sep) (c # s))
      else split_from sep (cur @ [c]) s)"

definition split :: "string \<Rightarrow> string \<Rightarrow> string list" where
  "split s sep = split_from sep [] s"

text \<open>\<^verbatim>\<open>s.replace(old, new)\<close> for a non-empty \<open>old\<close>: every occurrence found by
  the scan from the left is replaced.\<close>

fun replace :: "string \<Rightarrow> string \<Rightarrow> string \<Rightarrow> string" where
  "replace [] old new = []"
| "replace (c # s) old new =
     (if old \<noteq> [] \<and> startswith (c # s) old
      then new @ replace (drop (length old) (c # s)) old new
      else c # replace s old new)"

text \<open>\<^verbatim>\<open>c.isspace()\<close> on the 8-bit characters, and \<^verbatim>\<open>s.strip()\<close>.\<close>

definition isspace :: "char \<Rightarrow> bool" where
  "isspace c = (c \<in> {CHR 0x09, CHR 0x0A, CHR 0x0B, CHR 0x0C, CHR 0x0D,
                      CHR 0x1C, CHR 0x1D, CHR 0x1E, CHR 0x1F, CHR 0x20, CHR 0x85, CHR 0xA0})"

definition strip :: "string \<Rightarrow> string" where
  "strip s = rev (dropWhile isspace (rev (dropWhile isspace s)))"

text \<open>The regular expression class \<^verbatim>\<open>\d\<close> on the 8-bit characters.\<close>

definition isdigit :: "char \<Rightarrow> bool" where
  "isdigit c = (c \<in> set ''0123456789'')"

section \<open>Data\<close>

text \<open>Exceptions that leave \<^verbatim>\<open>get_message_details\<close> and \<^verbatim>\<open>main\<close>.\<close>

datatype exn = KeyError | ValueError

text \<open>A \<^verbatim>\<open>datetime\<close> value without time zone.\<close>

record datetime =
  year :: nat
  month :: nat
  day :: nat
  hour :: nat
  minute :: nat
  second :: nat
  microsecond :: nat

text \<open>
  What the program reads of a parsed page. \<open>audio_src\<close> is the \<^verbatim>\<open>src\<close>
  attribute of the audio element, if it has one. \<open>audio_source\<close> is the first
  \<^verbatim>\<open>source\<close> element below it (\<open>None\<close>: there is none) with its
  \<^verbatim>\<open>src\<close> attribute (\<open>Some None\<close>: the element has no such attribute);
  \<open>audio_a\<close> likewise for the first \<^verbatim>\<open>a\<close> element below it and its
  \<^verbatim>\<open>href\<close>.
\<close>

record audio_tag =
  audio_src :: "string option"
  audio_source :: "string option option"
  audio_a :: "string option option"

text \<open>
  \<open>anchors\<close>: the \<^verbatim>\<open>href\<close> values of \<^verbatim>\<open>soup.find_all('a', href=True)\<close>,
  in document order. \<open>h1\<close>: \<^verbatim>\<open>get_text(strip=True)\<close> of
  \<^verbatim>\<open>soup.find('h1')\<close>, if there is one. \<open>audio\<close>:
  \<^verbatim>\<open>soup.find('audio', class_='wp-audio-shortcode')\<close>.
\<close>

record soup =
  anchors :: "string list"
  h1 :: "string option"
  audio :: "audio_tag option"

text \<open>The dictionaries \<^verbatim>\<open>{'url': href}\<close> of \<^verbatim>\<open>scrape_messages\<close>.\<close>

record message_link =
  url :: string

text \<open>The dictionary \<^verbatim>\<open>details\<close>; the key \<^verbatim>\<open>speaker\<close> may be absent.\<close>

record details =
  details_url :: string
  title :: string
  audio_url :: string
  date :: datetime
  speaker :: "string option"
  description :: string

text \<open>
  An episode as \<^verbatim>\<open>generate_feed\<close> fills it in. The media object is constructed with
  size 0 and type \<^verbatim>\<open>audio/mpeg\<close>; the publication date is the message's date with the
  local time zone attached.
\<close>

record episode =
  ep_title :: string
  ep_media_url :: string
  ep_media_size :: nat
  ep_media_type :: string
  ep_summary :: string
  ep_publication_date :: datetime
  ep_link :: string
  ep_authors :: "string list"

record podcast =
  podcast_name :: string
  podcast_website :: string
  episodes :: "episode list"

text \<open>The lines the program prints, one constructor for each \<^verbatim>\<open>print\<close> of the source.\<close>

datatype line =
    Error_fetching string
  | No_audio_found string
  | Error_adding_episode string
  | Podcast_feed_generated string
  | Scraping_messages
  | Found_links nat
  | Processing string
  | Found_details string datetime
  | No_messages_found

text \<open>The state the program changes: the console and the feed file (\<open>None\<close>: no file).\<close>

record state =
  console :: "line list"
  rss_file :: "podcast option"

definition print :: "line \<Rightarrow> state \<Rightarrow> state" where
  "print l st = st\<lparr>console := console st @ [l]\<rparr>"

text \<open>
  What the program takes from outside. \<open>pages u\<close> is the document
  \<^verbatim>\<open>requests.get\<close> and the HTML parser give for the URL \<open>u\<close> (\<open>None\<close>: a
  \<^verbatim>\<open>RequestException\<close>); \<open>clock u\<close> is what \<^verbatim>\<open>datetime.now()\<close> returns
  while the message page \<open>u\<close> is read. The other fields are the library functions the
  program calls: \<^verbatim>\<open>urljoin\<close> and \<^verbatim>\<open>unquote\<close> of \<^verbatim>\<open>urllib.parse\<close>
  (taken as total functions), \<^verbatim>\<open>datetime.strptime\<close> with the format
  \<^verbatim>\<open>%Y-%m-%d\<close> (\<open>None\<close>: it raises \<^verbatim>\<open>ValueError\<close>),
  \<^verbatim>\<open>strftime\<close> with the format \<^verbatim>\<open>%B %d, %Y\<close>, and the constructors
  \<^verbatim>\<open>Media(url, size=0, type="audio/mpeg")\<close> and \<^verbatim>\<open>Person(name)\<close> of podgen
  (\<open>False\<close>: the constructor raises).
\<close>

record env =
  pages :: "string \<Rightarrow> soup option"
  clock :: "string \<Rightarrow> datetime"
  urljoin :: "string \<Rightarrow> string \<Rightarrow> string"
  unquote :: "string \<Rightarrow> string"
  strptime :: "string \<Rightarrow> datetime option"
  strftime :: "datetime \<Rightarrow> string"
  Media_init :: "string \<Rightarrow> bool"
  Person_init :: "string \<Rightarrow> bool"

section \<open>The program\<close>

definition BASE_URL :: string where
  "BASE_URL = ''https://www.westminster.org/messages/''"

definition RSS_FILENAME :: string where
  "RSS_FILENAME = ''podcast.xml''"

subsection \<open>\<^verbatim>\<open>get_soup\<close>\<close>

definition get_soup :: "env \<Rightarrow> string \<Rightarrow> state \<Rightarrow> soup option \<times> state" where
  "get_soup e u st =
     (case pages e u of
        Some s \<Rightarrow> (Some s, st)
      | None \<Rightarrow> (None, print (Error_fetching u) st))"

subsection \<open>\<^verbatim>\<open>scrape_messages\<close>\<close>

text \<open>The body of the loop over the anchors, with \<^verbatim>\<open>seen_urls\<close> and
  \<^verbatim>\<open>messages\<close> passed along.\<close>

fun scrape_loop ::
  "env \<Rightarrow> string list \<Rightarrow> string set \<Rightarrow> message_link list \<Rightarrow> message_link list" where
  "scrape_loop e [] seen_urls messages = messages"
| "scrape_loop e (link # links) seen_urls messages =
     (let href = (if startswith link ''/'' then urljoin e BASE_URL link else link) in
      if contains href ''/mediacast/'' \<and> href \<noteq> ''https://www.westminster.org/mediacast/''
      then (if href \<notin> seen_urls
            then scrape_loop e links (insert href seen_urls) (messages @ [\<lparr>url = href\<rparr>])
            else scrape_loop e links seen_urls messages)
      else scrape_loop e links seen_urls messages)"

definition scrape_messages :: "env \<Rightarrow> state \<Rightarrow> message_link list \<times> state" where
  "scrape_messages e st =
     (case get_soup e BASE_URL st of
        (None, st') \<Rightarrow> ([], st')
      | (Some soup, st') \<Rightarrow> (scrape_loop e (anchors soup) {} [], st'))"

subsection \<open>\<^verbatim>\<open>get_message_details\<close>\<close>

text \<open>
  The audio URL (source lines 73 to 80). \<open>Inr None\<close>: the key \<^verbatim>\<open>audio_url\<close> is
  not set. \<^verbatim>\<open>audio_tag.get('src')\<close> is tested for truth, so an empty attribute counts
  as absent there; \<^verbatim>\<open>audio_tag.find('source')['src']\<close> and
  \<^verbatim>\<open>audio_tag.find('a')['href']\<close> raise \<^verbatim>\<open>KeyError\<close> when the element found has
  no such attribute.
\<close>

definition subscript :: "string option \<Rightarrow> exn + string option" where
  "subscript attr = (case attr of None \<Rightarrow> Inl KeyError | Some v \<Rightarrow> Inr (Some v))"

definition resolve_audio_url :: "soup \<Rightarrow> exn + string option" where
  "resolve_audio_url sp =
     (case audio sp of
        None \<Rightarrow> Inr None
      | Some audio_tag \<Rightarrow>
          (if audio_src audio_tag \<noteq> None \<and> audio_src audio_tag \<noteq> Some []
           then Inr (audio_src audio_tag)
           else case audio_source audio_tag of
                  Some source \<Rightarrow> subscript source
                | None \<Rightarrow>
                    (case audio_a audio_tag of
                       Some a \<Rightarrow> subscript a
                     | None \<Rightarrow> Inr None)))"

text \<open>
  \<^verbatim>\<open>re.search\<close> for a pattern that is a sequence of character classes: the leftmost
  place where the pattern matches, and the text matched there.
\<close>

fun matches_at :: "(char \<Rightarrow> bool) list \<Rightarrow> string \<Rightarrow> bool" where
  "matches_at [] s = True"
| "matches_at (p # ps) [] = False"
| "matches_at (p # ps) (c # s) = (p c \<and> matches_at ps s)"

fun re_search :: "(char \<Rightarrow> bool) list \<Rightarrow> string \<Rightarrow> string option" where
  "re_search pat [] = (if matches_at pat [] then Some [] else None)"
| "re_search pat (c # s) =
     (if matches_at pat (c # s) then Some (take (length pat) (c # s)) else re_search pat s)"

text \<open>The pattern \<^verbatim>\<open>(\d{4}-\d{2}-\d{2})\<close>.\<close>

definition is_dash :: "char \<Rightarrow> bool" where
  "is_dash c = (c = CHR ''-'')"

definition date_pattern :: "(char \<Rightarrow> bool) list" where
  "date_pattern =
     [isdigit, isdigit, isdigit, isdigit, is_dash, isdigit, isdigit, is_dash, isdigit, isdigit]"

text \<open>The date (source lines 91 to 96); \<open>now\<close> is the value of \<^verbatim>\<open>datetime.now()\<close>.\<close>

definition extract_date :: "env \<Rightarrow> datetime \<Rightarrow> string \<Rightarrow> exn + datetime" where
  "extract_date e now audio_filename =
     (case re_search date_pattern audio_filename of
        Some date_match \<Rightarrow>
          (case strptime e date_match of Some d \<Rightarrow> Inr d | None \<Rightarrow> Inl ValueError)
      | None \<Rightarrow> Inr now)"

text \<open>The speaker (source lines 99 to 110); \<open>None\<close>: the key \<^verbatim>\<open>speaker\<close> is not set.\<close>

definition extract_speaker :: "env \<Rightarrow> string \<Rightarrow> string option" where
  "extract_speaker e audio_filename =
     (let decoded_filename = unquote e audio_filename in
      if contains decoded_filename '' - ''
      then (let parts = split decoded_filename '' - '' in
            if length parts > 1
            then Some (hd (split (strip (replace (last parts) ''.mp3'' [])) ''?''))
            else None)
      else Some ''Westminster Chapel'')"

definition get_message_details ::
  "env \<Rightarrow> string \<Rightarrow> state \<Rightarrow> (exn + details option) \<times> state" where
  "get_message_details e message_url st =
     (case get_soup e message_url st of
        (None, st') \<Rightarrow> (Inr None, st')
      | (Some sp, st') \<Rightarrow>
          (let title_text = (case h1 sp of Some t \<Rightarrow> t | None \<Rightarrow> ''Unknown Title'') in
           case resolve_audio_url sp of
             Inl x \<Rightarrow> (Inl x, st')
           | Inr None \<Rightarrow> (Inr None, print (No_audio_found message_url) st')
           | Inr (Some a) \<Rightarrow>
               (let audio_filename = last (split a ''/'') in
                case extract_date e (clock e message_url) audio_filename of
                  Inl x \<Rightarrow> (Inl x, st')
                | Inr d \<Rightarrow>
                    (let who = extract_speaker e audio_filename in
                     (Inr (Some \<lparr>details_url = message_url, title = title_text,
                                 audio_url = a, date = d, speaker = who,
                                 description =
                                   ''Message by ''
                                   @ (case who of Some s \<Rightarrow> s | None \<Rightarrow> ''Unknown'')
                                   @ '' on '' @ strftime e d\<rparr>),
                      st')))))"

subsection \<open>\<^verbatim>\<open>generate_feed\<close>\<close>

text \<open>
  The body of the \<^verbatim>\<open>try\<close> block for one message; \<open>None\<close>: a constructor raised,
  and nothing was added to the feed.
\<close>

definition make_episode :: "env \<Rightarrow> details \<Rightarrow> episode option" where
  "make_episode e msg =
     (if \<not> Media_init e (audio_url msg) then None
      else (let ep = \<lparr>ep_title = title msg, ep_media_url = audio_url msg, ep_media_size = 0,
                      ep_media_type = ''audio/mpeg'', ep_summary = description msg,
                      ep_publication_date = date msg, ep_link = details_url msg,
                      ep_authors = []\<rparr> in
            case speaker msg of
              None \<Rightarrow> Some ep
            | Some s \<Rightarrow> if Person_init e s then Some (ep\<lparr>ep_authors := [s]\<rparr>) else None))"

text \<open>The loop over the messages; an entry \<open>None\<close> is one that Python takes for false.\<close>

fun add_episodes :: "env \<Rightarrow> details option list \<Rightarrow> podcast \<Rightarrow> state \<Rightarrow> podcast \<times> state" where
  "add_episodes e [] p st = (p, st)"
| "add_episodes e (None # messages) p st = add_episodes e messages p st"
| "add_episodes e (Some msg # messages) p st =
     (case make_episode e msg of
        Some ep \<Rightarrow> add_episodes e messages (p\<lparr>episodes := episodes p @ [ep]\<rparr>) st
      | None \<Rightarrow> add_episodes e messages p (print (Error_adding_episode (title msg)) st))"

definition new_podcast :: podcast where
  "new_podcast = \<lparr>podcast_name = ''Westminster Chapel Messages'',
                   podcast_website = BASE_URL, episodes = []\<rparr>"

definition generate_feed :: "env \<Rightarrow> details option list \<Rightarrow> state \<Rightarrow> state" where
  "generate_feed e messages st =
     (case add_episodes e messages new_podcast st of
        (p, st') \<Rightarrow> print (Podcast_feed_generated RSS_FILENAME) (st'\<lparr>rss_file := Some p\<rparr>))"

subsection \<open>\<^verbatim>\<open>main\<close>\<close>

text \<open>The loop over \<^verbatim>\<open>message_links[:20]\<close>, with \<^verbatim>\<open>details_list\<close> passed along. An
  exception of \<^verbatim>\<open>get_message_details\<close> is not caught: it ends the loop.\<close>

fun process_links ::
  "env \<Rightarrow> message_link list \<Rightarrow> details list \<Rightarrow> state \<Rightarrow> (exn + details list) \<times> state" where
  "process_links e [] details_list st = (Inr details_list, st)"
| "process_links e (link_obj # rest) details_list st =
     (case get_message_details e (url link_obj) (print (Processing (url link_obj)) st) of
        (Inl x, st') \<Rightarrow> (Inl x, st')
      | (Inr None, st') \<Rightarrow> process_links e rest details_list st'
      | (Inr (Some d), st') \<Rightarrow>
          process_links e rest (details_list @ [d]) (print (Found_details (title d) (date d)) st'))"

text \<open>The first part of \<^verbatim>\<open>main\<close>, up to the end of the loop: the value of
  \<^verbatim>\<open>details_list\<close> there, or the exception that ended the run.\<close>

definition extract_all :: "env \<Rightarrow> state \<Rightarrow> (exn + details list) \<times> state" where
  "extract_all e st =
     (case scrape_messages e (print Scraping_messages st) of
        (message_links, st1) \<Rightarrow>
          process_links e (take 20 message_links) []
            (print (Found_links (length message_links)) st1))"

definition main :: "env \<Rightarrow> state \<Rightarrow> (exn + unit) \<times> state" where
  "main e st =
     (case extract_all e st of
        (Inl x, st2) \<Rightarrow> (Inl x, st2)
      | (Inr details_list, st2) \<Rightarrow>
          (if details_list \<noteq> []
           then (Inr (), generate_feed e (map Some details_list) st2)
           else (Inr (), print No_messages_found st2)))"

section \<open>The libraries on plain inputs\<close>

text \<open>
  The library functions are parameters of the program above. For the evaluation of the
  program on concrete pages, this section fixes what they return on the inputs that occur
  there, following the documentation of the Python standard library and of podgen.
\<close>

text \<open>
  \<^verbatim>\<open>urljoin(base, ref)\<close> for a base \<^verbatim>\<open>scheme://host/...\<close> and a reference that
  is a plain path (no scheme, no host, no dot segments, no query): a path with a leading
  slash replaces the path of the base, and any other path replaces what follows the last
  slash of the base.
\<close>

definition lib_urljoin :: "string \<Rightarrow> string \<Rightarrow> string" where
  "lib_urljoin base ref =
     (if startswith ref ''/''
      then (case split base ''/'' of
              sch # gap # host # rest \<Rightarrow> sch @ ''//'' @ host @ ref
            | _ \<Rightarrow> ref)
      else rev (dropWhile (\<lambda>c. c \<noteq> CHR ''/'') (rev base)) @ ref)"

text \<open>
  \<^verbatim>\<open>unquote(s)\<close> for a string whose percent escapes encode ASCII characters: each
  \<^verbatim>\<open>%XX\<close> with two hexadecimal digits is replaced by the character it encodes, and
  everything else is kept, a plus sign included. A string without a percent sign is
  returned as it is.
\<close>

definition hexval :: "char \<Rightarrow> nat option" where
  "hexval c =
     (if c \<in> set ''0123456789'' then Some (of_char c - 48)
      else if c \<in> set ''abcdef'' then Some (of_char c - 87)
      else if c \<in> set ''ABCDEF'' then Some (of_char c - 55)
      else None)"

fun lib_unquote :: "string \<Rightarrow> string" where
  "lib_unquote (c # h # l # s) =
     (if c = CHR ''%''
      then (case (hexval h, hexval l) of
              (Some a, Some b) \<Rightarrow>
                if a < 8 then char_of (16 * a + b) # lib_unquote s
                else c # lib_unquote (h # l # s)
            | _ \<Rightarrow> c # lib_unquote (h # l # s))
      else c # lib_unquote (h # l # s))"
| "lib_unquote s = s"

text \<open>
  \<^verbatim>\<open>datetime.strptime(s, "%Y-%m-%d")\<close> for a string \<open>s\<close> that matches the date
  pattern: the date, when the year is not 0 and month and day exist in the calendar.
\<close>

definition digit :: "char \<Rightarrow> nat" where
  "digit c = of_char c - 48"

definition is_leap :: "nat \<Rightarrow> bool" where
  "is_leap y = (y mod 4 = 0 \<and> (y mod 100 \<noteq> 0 \<or> y mod 400 = 0))"

definition days_in_month :: "nat \<Rightarrow> nat \<Rightarrow> nat" where
  "days_in_month y m =
     (if m = 2 then (if is_leap y then 29 else 28)
      else if m = 4 \<or> m = 6 \<or> m = 9 \<or> m = 11 then 30
      else 31)"

definition lib_strptime :: "string \<Rightarrow> datetime option" where
  "lib_strptime s =
     (case s of
        [y1, y2, y3, y4, s1, m1, m2, s2, d1, d2] \<Rightarrow>
          (let y = 1000 * digit y1 + 100 * digit y2 + 10 * digit y3 + digit y4;
               m = 10 * digit m1 + digit m2;
               d = 10 * digit d1 + digit d2
           in if matches_at date_pattern s \<and> 1 \<le> y \<and> 1 \<le> m \<and> m \<le> 12
                 \<and> 1 \<le> d \<and> d \<le> days_in_month y m
              then Some \<lparr>year = y, month = m, day = d, hour = 0, minute = 0, second = 0,
                         microsecond = 0\<rparr>
              else None)
      | _ \<Rightarrow> None)"

text \<open>\<^verbatim>\<open>d.strftime("%B %d, %Y")\<close> for a date from the year 1000 on.\<close>

definition month_names :: "string list" where
  "month_names = [''January'', ''February'', ''March'', ''April'', ''May'', ''June'', ''July'',
     ''August'', ''September'', ''October'', ''November'', ''December'']"

definition digit_char :: "nat \<Rightarrow> char" where
  "digit_char n = ''0123456789'' ! (n mod 10)"

definition lib_strftime :: "datetime \<Rightarrow> string" where
  "lib_strftime d =
     month_names ! (month d - 1) @ '' ''
     @ [digit_char (day d div 10), digit_char (day d)] @ '', ''
     @ [digit_char (year d div 1000), digit_char (year d div 100), digit_char (year d div 10),
        digit_char (year d)]"

text \<open>The constructors of podgen refuse an empty URL and an empty name.\<close>

definition lib_Media_init :: "string \<Rightarrow> bool" where
  "lib_Media_init u = (u \<noteq> [])"

definition lib_Person_init :: "string \<Rightarrow> bool" where
  "lib_Person_init n = (n \<noteq> [])"

definition with_libraries :: "(string \<Rightarrow> soup option) \<Rightarrow> (string \<Rightarrow> datetime) \<Rightarrow> env" where
  "with_libraries web time =
     \<lparr>pages = web, clock = time, urljoin = lib_urljoin, unquote = lib_unquote,
      strptime = lib_strptime, strftime = lib_strftime, Media_init = lib_Media_init,
      Person_init = lib_Person_init\<rparr>"

section \<open>Notions of the specification\<close>



text \<open>
  The URL a link of the listing stands for: a reference with a leading slash is joined to
  the listing URL, every other reference is taken as it is written. A URL qualifies
  when it contains the marker of the message pages and is not the index of those pages.
\<close>

definition resolved :: "env \<Rightarrow> string \<Rightarrow> string" where
  "resolved e h = (if prefix ''/'' h then urljoin e BASE_URL h else h)"

definition qualifying :: "string \<Rightarrow> bool" where
  "qualifying h = (sublist ''/mediacast/'' h \<and> h \<noteq> ''https://www.westminster.org/mediacast/'')"


section \<open>Pages for evaluation\<close>

definition noon :: "string \<Rightarrow> datetime" where
  "noon u = \<lparr>year = 2025, month = 11, day = 10, hour = 12, minute = 0, second = 0,
             microsecond = 0\<rparr>"

definition fresh :: state where
  "fresh = \<lparr>console = [], rss_file = None\<rparr>"

definition listing :: "string list \<Rightarrow> soup" where
  "listing hrefs = \<lparr>anchors = hrefs, h1 = None, audio = None\<rparr>"

definition message_page :: "string option \<Rightarrow> audio_tag \<Rightarrow> soup" where
  "message_page heading player = \<lparr>anchors = [], h1 = heading, audio = Some player\<rparr>"

definition advent :: string where
  "advent = ''https://www.westminster.org/mediacast/advent/''"

definition easter :: string where
  "easter = ''https://www.westminster.org/mediacast/easter/''"

definition jane_doe_mp3 :: string where
  "jane_doe_mp3 = ''https://www.westminster.org/wp-content/uploads/Messages/2025-11-09+Message+-+Jane+Doe.mp3''"

definition player_with_src :: "string \<Rightarrow> audio_tag" where
  "player_with_src u = \<lparr>audio_src = Some u, audio_source = None, audio_a = None\<rparr>"

definition player_bare_source :: audio_tag where
  "player_bare_source =
     \<lparr>audio_src = None, audio_source = Some None, audio_a = Some (Some jane_doe_mp3)\<rparr>"

definition player_bare_link :: audio_tag where
  "player_bare_link = \<lparr>audio_src = None, audio_source = None, audio_a = Some None\<rparr>"

text \<open>A listing of two messages; the player of the first has a \<^verbatim>\<open>source\<close> element
  without \<^verbatim>\<open>src\<close> and a link to the audio file, the second page is complete.\<close>

definition site_bare_source :: env where
  "site_bare_source = with_libraries
     (map_of [(BASE_URL, listing [advent, easter]),
              (advent, message_page (Some ''Advent'') player_bare_source),
              (easter, message_page (Some ''Easter'') (player_with_src jane_doe_mp3))]) noon"

text \<open>The same listing; the audio file of the first message is named after a date that
  does not exist.\<close>

definition site_bad_date :: env where
  "site_bad_date = with_libraries
     (map_of [(BASE_URL, listing [advent, easter]),
              (advent, message_page (Some ''Advent'') (player_with_src
                 ''https://www.westminster.org/wp-content/uploads/Messages/2025-13-45+Message.mp3'')),
              (easter, message_page (Some ''Easter'') (player_with_src jane_doe_mp3))]) noon"

text \<open>A message whose player has no \<^verbatim>\<open>source\<close> element and a link without
  \<^verbatim>\<open>href\<close>.\<close>

definition site_bare_link :: env where
  "site_bare_link = with_libraries
     (map_of [(BASE_URL, listing [advent]),
              (advent, message_page (Some ''Advent'') player_bare_link)]) noon"

text \<open>Listings: one relative link; links that repeat; 22 links to pages that cannot be
  fetched; no link to a message.\<close>

definition site_relative :: env where
  "site_relative = with_libraries
     (map_of [(BASE_URL, listing [''series/mediacast/advent/''])]) noon"

definition site_repeats :: env where
  "site_repeats = with_libraries
     (map_of [(BASE_URL, listing [''/mediacast/advent/'', ''/about/'',
                ''https://www.westminster.org/mediacast/'', easter, ''/mediacast/advent/'',
                advent, ''/mediacast/'', easter])]) noon"




text \<open>A message page whose heading is empty.\<close>

definition site_untitled :: env where
  "site_untitled = with_libraries
     (map_of [(BASE_URL, listing [advent]),
              (advent, message_page (Some []) (player_with_src jane_doe_mp3))]) noon"


section \<open>Lemmas\<close>

subsection \<open>Evaluation\<close>

lemmas inputs = noon_def fresh_def listing_def message_page_def advent_def easter_def
  jane_doe_mp3_def player_with_src_def player_bare_source_def player_bare_link_def
  with_libraries_def BASE_URL_def RSS_FILENAME_def

lemmas program = main_def extract_all_def scrape_messages_def get_soup_def print_def
  get_message_details_def resolve_audio_url_def subscript_def extract_date_def
  extract_speaker_def date_pattern_def isdigit_def is_dash_def split_def Let_def
  generate_feed_def make_episode_def new_podcast_def

lemmas libraries = lib_urljoin_def lib_strptime_def lib_strftime_def digit_def
  days_in_month_def is_leap_def month_names_def digit_char_def lib_Media_init_def
  lib_Person_init_def

subsection \<open>Strings\<close>

lemma startswith_prefix: "startswith s p = prefix p s"
  by (induction s p rule: startswith.induct) auto

lemma contains_sublist: "contains s sub = sublist sub s"
  by (induction s) (auto simp: startswith_prefix sublist_Cons_right)




subsection \<open>The date pattern\<close>





subsection \<open>The listing\<close>

text \<open>\<open>rev (remdups (rev xs))\<close> keeps the first occurrence of every element of
  \<open>xs\<close>, in the order of \<open>xs\<close>.\<close>

lemma first_seen_Cons:
  "rev (remdups (rev (x # ys))) = x # rev (remdups (rev (filter (\<lambda>y. y \<noteq> x) ys)))"
proof -
  have "remdups (zs @ [x]) = remdups (filter (\<lambda>y. y \<noteq> x) zs) @ [x]" for zs
    by (induction zs) auto
  then show ?thesis by (simp add: rev_filter)
qed

lemma scrape_loop_urls:
  "map url (scrape_loop e hs seen ms) =
     map url ms @ rev (remdups (rev (filter (\<lambda>h. h \<notin> seen) (filter qualifying (map (resolved e) hs)))))"
proof (induction hs arbitrary: seen ms)
  case Nil
  then show ?case by simp
next
  case (Cons h hs)
  have eq: "\<And>r xs. filter (\<lambda>x. qualifying x \<and> x \<noteq> r \<and> x \<notin> seen) xs
                    = filter (\<lambda>x. qualifying x \<and> x \<notin> seen \<and> x \<noteq> r) xs"
    by (rule filter_cong) auto
  show ?case
    using Cons[of "insert (resolved e h) seen" "ms @ [\<lparr>url = resolved e h\<rparr>]"] Cons[of seen ms]
    by (simp add: Let_def contains_sublist startswith_prefix resolved_def[symmetric] qualifying_def[symmetric] first_seen_Cons eq del: remdups.simps rev.simps)
qed

subsection \<open>Console and feed file\<close>

lemma get_soup_Some: "pages e u = Some sp \<Longrightarrow> get_soup e u st = (Some sp, st)"
  by (simp add: get_soup_def)










lemma add_episodes_rest:
  "podcast_name (fst (add_episodes e ms p st)) = podcast_name p
   \<and> podcast_website (fst (add_episodes e ms p st)) = podcast_website p"
proof (induction ms arbitrary: p st)
  case Nil
  then show ?case by simp
next
  case (Cons m ms)
  then show ?case by (cases m) (auto split: option.splits)
qed

section \<open>Properties\<close>

subsection \<open>Errors while a message page is read\<close>

text \<open>
  C1. An unexpected error raised while the details of one link are extracted should cause
  only that link to be skipped, and the run over the remaining links should go on. The
  loop of \<^verbatim>\<open>main\<close> has no handler: on the first listing below the \<^verbatim>\<open>KeyError\<close>
  of the first message page, and on the second the \<^verbatim>\<open>ValueError\<close> of the date in
  its file name, leave \<^verbatim>\<open>main\<close>. The second message, whose page is complete, is not
  processed, and no feed is written.
\<close>

theorem one_error_ends_the_run:
  "main site_bare_source fresh
     = (Inl KeyError,
        \<lparr>console = [Scraping_messages, Found_links 2, Processing advent], rss_file = None\<rparr>)
   \<and> main site_bad_date fresh
     = (Inl ValueError,
        \<lparr>console = [Scraping_messages, Found_links 2, Processing advent], rss_file = None\<rparr>)"
  by (simp add: site_bare_source_def site_bad_date_def inputs program libraries)

subsection \<open>The speaker\<close>

text \<open>
  C2. For the audio file name \<^verbatim>\<open>2025-11-09+Message+-+Jane+Doe.mp3\<close> the speaker
  should be Jane Doe. \<^verbatim>\<open>unquote\<close> leaves the plus signs as they are, so the decoded
  name has no separator \<open>space dash space\<close>, and the speaker is the name of the
  organization.
\<close>

theorem plus_signs_are_not_decoded:
  "get_message_details site_bare_source easter fresh
     = (Inr (Some \<lparr>details_url = easter, title = ''Easter'', audio_url = jane_doe_mp3,
                   date = \<lparr>year = 2025, month = 11, day = 9, hour = 0, minute = 0,
                            second = 0, microsecond = 0\<rparr>,
                   speaker = Some ''Westminster Chapel'',
                   description = ''Message by Westminster Chapel on November 09, 2025''\<rparr>),
        fresh)"
  by (simp add: site_bare_source_def inputs program libraries)

subsection \<open>The date\<close>



subsection \<open>The audio URL\<close>

text \<open>
  C4. The audio URL should be the \<^verbatim>\<open>src\<close> of the audio element, else the URL of a
  nested \<^verbatim>\<open>source\<close> element, else the target of a nested link, and nothing should be
  returned when none of them gives a URL. On a page whose audio element has a
  \<^verbatim>\<open>source\<close> element without \<^verbatim>\<open>src\<close> and a link to the audio file, the link is
  not reached: the lookup of \<^verbatim>\<open>src\<close> raises \<^verbatim>\<open>KeyError\<close>.
\<close>

theorem nested_link_is_not_reached:
  "get_message_details site_bare_source advent fresh = (Inl KeyError, fresh)"
  by (simp add: site_bare_source_def inputs program libraries)

subsection \<open>The listing\<close>

text \<open>
  C5, as stated: every relative path of the listing is resolved against the listing URL.
  A relative path without a leading slash is not: the link returned for it holds the path
  as written, not the URL \<^verbatim>\<open>urljoin\<close> gives for it.
\<close>

theorem relative_link_is_kept:
  "map url (fst (scrape_messages site_relative fresh)) = [''series/mediacast/advent/'']
   \<and> lib_urljoin BASE_URL ''series/mediacast/advent/''
       = ''https://www.westminster.org/messages/series/mediacast/advent/''"
  by (simp add: site_relative_def inputs program libraries)

text \<open>
  C5, amended. For every listing document, the references with a leading slash are joined
  to the listing URL and every other reference is taken as written; the links returned are
  the resulting URLs that contain the marker of the message pages and are not the index
  of those pages, each once, in the order of their first occurrence; their number is the
  number of distinct such URLs.
\<close>

theorem scrape_messages_first_seen:
  assumes "pages e BASE_URL = Some sp"
  shows "map url (fst (scrape_messages e st))
           = rev (remdups (rev (filter qualifying (map (resolved e) (anchors sp)))))
         \<and> distinct (map url (fst (scrape_messages e st)))
         \<and> length (fst (scrape_messages e st))
             = card {h \<in> resolved e ` set (anchors sp). qualifying h}"
proof -
  let ?xs = "filter qualifying (map (resolved e) (anchors sp))"
  have m: "map url (fst (scrape_messages e st)) = rev (remdups (rev ?xs))"
    using assms by (simp add: scrape_messages_def get_soup_Some scrape_loop_urls)
  have "length (map url (fst (scrape_messages e st))) = card (set ?xs)"
    unfolding m by (simp add: length_remdups_card_conv)
  moreover have "set ?xs = {h \<in> resolved e ` set (anchors sp). qualifying h}" by auto
  ultimately have "length (fst (scrape_messages e st))
                     = card {h \<in> resolved e ` set (anchors sp). qualifying h}" by simp
  moreover have "distinct (map url (fst (scrape_messages e st)))" unfolding m by simp
  ultimately show ?thesis using m by blast
qed

theorem scrape_messages_first_seen_witness:
  "map url (fst (scrape_messages site_repeats fresh))
     = [advent, easter]
   \<and> length (fst (scrape_messages site_repeats fresh)) = 2"
proof -
  let ?page = "listing [''/mediacast/advent/'', ''/about/'',
                ''https://www.westminster.org/mediacast/'', easter, ''/mediacast/advent/'',
                advent, ''/mediacast/'', easter]"
  have p: "pages site_repeats BASE_URL = Some ?page"
    by (simp add: site_repeats_def inputs)
  have "rev (remdups (rev (filter qualifying (map (resolved site_repeats) (anchors ?page)))))
          = [advent, easter]"
    by (simp add: inputs resolved_def qualifying_def contains_sublist[symmetric]
          startswith_prefix[symmetric] site_repeats_def libraries split_def)
  then have m: "map url (fst (scrape_messages site_repeats fresh)) = [advent, easter]"
    using scrape_messages_first_seen[OF p, of fresh] by simp
  then have "length (map url (fst (scrape_messages site_repeats fresh)))
               = length [advent, easter]"
    by (rule arg_cong)
  then have "length (fst (scrape_messages site_repeats fresh)) = 2" by simp
  then show ?thesis using m by blast
qed

subsection \<open>The bound of 20 messages\<close>



subsection \<open>Feed or notice\<close>



subsection \<open>The episodes of the feed\<close>

text \<open>
  C8. Every episode of the feed should have a non-empty title. A message page with an
  empty heading has a heading, so the placeholder title is not used, and the text of the
  heading is the title: the episode written to the feed has the empty title.
\<close>

theorem empty_heading_gives_empty_title:
  "rss_file (snd (main site_untitled fresh))
     = Some \<lparr>podcast_name = ''Westminster Chapel Messages'', podcast_website = BASE_URL,
             episodes = [\<lparr>ep_title = [], ep_media_url = jane_doe_mp3, ep_media_size = 0,
                          ep_media_type = ''audio/mpeg'',
                          ep_summary = ''Message by Westminster Chapel on November 09, 2025'',
                          ep_publication_date = \<lparr>year = 2025, month = 11, day = 9, hour = 0,
                             minute = 0, second = 0, microsecond = 0\<rparr>,
                          ep_link = advent, ep_authors = [''Westminster Chapel'']\<rparr>]\<rparr>"
  by (simp add: site_untitled_def inputs program libraries)

subsection \<open>Nested elements without their attribute\<close>

text \<open>
  C9. When the audio element has no \<^verbatim>\<open>src\<close> (or an empty one) and its first nested
  \<^verbatim>\<open>source\<close> element has no \<^verbatim>\<open>src\<close>, or it has no \<^verbatim>\<open>source\<close> element and its
  first nested link has no \<^verbatim>\<open>href\<close>, \<^verbatim>\<open>get_message_details\<close> raises
  \<^verbatim>\<open>KeyError\<close>; it does not return \<^verbatim>\<open>None\<close>.
\<close>

theorem nested_element_without_attribute_raises:
  assumes "pages e u = Some sp" and "audio sp = Some t"
    and "audio_src t = None \<or> audio_src t = Some []"
    and "audio_source t = Some None \<or> (audio_source t = None \<and> audio_a t = Some None)"
  shows "get_message_details e u st = (Inl KeyError, st)"
  using assms
  by (auto simp: get_message_details_def get_soup_Some resolve_audio_url_def subscript_def)

theorem nested_element_without_attribute_raises_witness:
  "get_message_details site_bare_link advent fresh = (Inl KeyError, fresh)"
  by (rule nested_element_without_attribute_raises
        [where sp = "message_page (Some ''Advent'') player_bare_link" and t = player_bare_link])
     (simp_all add: site_bare_link_def inputs)

subsection \<open>The feed file\<close>



end
